theory Spec2Isabelle
  imports Main "HOL-Library.Word"
begin

section \<open>JavaScript values\<close>

text \<open>
  A JavaScript string is a sequence of UTF-16 code units, and \<open>.length\<close> counts them.
  \<open>js\<close> turns an ASCII literal of the source into such a string.
\<close>

type_synonym jsstring = "16 word list"

definition js :: "string \<Rightarrow> jsstring" where
  "js s = map of_char s"

text \<open>
  The values \<open>JSON.parse\<close> can return. The code never computes with a number, so a
  number is given by the string that \<open>ToString\<close> yields for it. An object is given by
  its own properties, each key once.
\<close>

datatype json =
    JNull
  | JBool bool
  | JNum jsstring
  | JStr jsstring
  | JArr "json list"
  | JObj "(jsstring \<times> json) list"

text \<open>
  The values that travel through the promises of \<open>index.js\<close>: \<open>undefined\<close>, a JSON value,
  an \<open>Error\<close> object with its message and its \<open>target\<close> property (\<open>None\<close> when the
  property was never set), and the built-in errors the runtime throws.
\<close>

datatype jsval =
    Undefined
  | Val json
  | Error jsstring "jsstring option"
  | TypeError
  | SyntaxError

text \<open>\<open>x == null\<close> holds for \<open>null\<close> and \<open>undefined\<close> only.\<close>

fun is_nullish :: "jsval \<Rightarrow> bool" where
  "is_nullish Undefined = True"
| "is_nullish (Val JNull) = True"
| "is_nullish _ = False"

text \<open>The truth value of \<open>x\<close> in \<open>if (x)\<close> and \<open>! x\<close>.\<close>

fun truthy :: "jsval \<Rightarrow> bool" where
  "truthy Undefined = False"
| "truthy (Val JNull) = False"
| "truthy (Val (JBool b)) = b"
| "truthy (Val (JNum x)) = (x \<noteq> js ''0'' \<and> x \<noteq> js ''NaN'')"
| "truthy (Val (JStr s)) = (s \<noteq> [])"
| "truthy _ = True"

text \<open>An argument that is a string or was not given (\<open>undefined\<close>).\<close>

fun truthy_str :: "jsstring option \<Rightarrow> bool" where
  "truthy_str None = False"
| "truthy_str (Some s) = (s \<noteq> [])"

text \<open>\<open>targetError(target, msg)\<close>: a new \<open>Error\<close> with \<open>err.target = target\<close>.\<close>

definition targetError :: "jsstring \<Rightarrow> jsstring \<Rightarrow> jsval" where
  "targetError target msg = Error msg (Some target)"

section \<open>Promises\<close>

text \<open>
  What becomes of a promise: it is fulfilled with a value, rejected with a reason, never
  settled because nothing ever calls \<open>resolve\<close> or \<open>reject\<close>, or never settled because
  the callback that should have settled it threw (the exception escapes the callback).
\<close>

datatype promise =
    Fulfilled jsval
  | Rejected jsval
  | Pending
  | Uncaught jsval

text \<open>
  The argument that the handlers of \<open>p.then(f, f)\<close> receive; \<open>None\<close> when neither
  handler ever runs.
\<close>

fun payload :: "promise \<Rightarrow> jsval option" where
  "payload (Fulfilled v) = Some v"
| "payload (Rejected v) = Some v"
| "payload Pending = None"
| "payload (Uncaught e) = None"

section \<open>allPromisesSettled\<close>

text \<open>
  The state shared by the closures of \<open>allPromisesSettled\<close>: the array \<open>results\<close>
  (a hole reads as \<open>undefined\<close>), whether the returned promise has been resolved (its value
  is the array \<open>results\<close> itself), and how often \<open>ok\<close> has been called.
\<close>

record settle_state =
  results :: "jsval list"
  resolved :: bool
  ok_calls :: nat

text \<open>\<open>ok(results)\<close>: resolving a promise that is already resolved changes nothing.\<close>

definition ok :: "settle_state \<Rightarrow> settle_state" where
  "ok st = st\<lparr>resolved := True, ok_calls := Suc (ok_calls st)\<rparr>"

text \<open>\<open>results[i] = ret\<close>: a write beyond the end extends the array with holes.\<close>

definition array_set :: "jsval list \<Rightarrow> nat \<Rightarrow> jsval \<Rightarrow> jsval list" where
  "array_set a i v =
     (if i < length a then a[i := v]
      else a @ replicate (i - length a) Undefined @ [v])"

text \<open>
  The loop \<open>for (j ...) if (results[j] == null) return;\<close>: \<open>False\<close> when it returns
  from the handler, \<open>True\<close> when it runs to the end.
\<close>

fun scan :: "jsval list \<Rightarrow> bool" where
  "scan [] = True"
| "scan (r # rs) = (if is_nullish r then False else scan rs)"

definition fillAndCheck :: "nat \<Rightarrow> jsval \<Rightarrow> settle_state \<Rightarrow> settle_state" where
  "fillAndCheck i ret st =
     (let st' = st\<lparr>results := array_set (results st) i ret\<rparr>
      in if scan (results st') then ok st' else st')"

text \<open>
  The handlers \<open>promiseList[i].then(fillAndCheck(i), fillAndCheck(i))\<close> run when promise
  \<open>i\<close> settles, with the value or the reason; they never run for a promise that is never
  settled.
\<close>

definition deliver :: "promise list \<Rightarrow> settle_state \<Rightarrow> nat \<Rightarrow> settle_state" where
  "deliver promiseList st i =
     (if i < length promiseList
      then (case payload (promiseList ! i) of
              None \<Rightarrow> st
            | Some ret \<Rightarrow> fillAndCheck i ret st)
      else st)"

text \<open>
  \<open>allPromisesSettled promiseList order\<close> is the state after the handlers of the promises
  \<open>order\<close> have run, in that order. The function itself only allocates \<open>results\<close> and
  attaches the handlers.
\<close>

definition allPromisesSettled :: "promise list \<Rightarrow> nat list \<Rightarrow> settle_state" where
  "allPromisesSettled promiseList order =
     foldl (deliver promiseList)
       \<lparr>results = replicate (length promiseList) Undefined, resolved = False, ok_calls = 0\<rparr>
       order"

text \<open>
  The orders in which the event loop can run the handlers: every promise settles at most
  once, so each index occurs at most once, and only indices of promises that settle occur.
\<close>

definition schedule :: "promise list \<Rightarrow> nat list \<Rightarrow> bool" where
  "schedule promiseList order \<longleftrightarrow>
     distinct order \<and>
     list_all (\<lambda>i. i < length promiseList \<and> payload (promiseList ! i) \<noteq> None) order"

text \<open>All promises of the list have settled and their handlers have run.\<close>

definition all_settled :: "promise list \<Rightarrow> nat list \<Rightarrow> bool" where
  "all_settled promiseList order \<longleftrightarrow>
     list_all (\<lambda>i. i \<in> set order) [0..<length promiseList]"

text \<open>The value of the returned promise, once it is resolved.\<close>

definition aggregate :: "settle_state \<Rightarrow> jsval list option" where
  "aggregate st = (if resolved st then Some (results st) else None)"

section \<open>The runtime and the outside world\<close>

text \<open>
  What \<open>index.js\<close> takes from its environment: the module constant \<open>NO_POST\<close> (the
  variable \<open>PO_SIMULATE\<close>, a string or \<open>undefined\<close>), the built-in \<open>JSON.parse\<close>
  (\<open>None\<close> when it throws a \<open>SyntaxError\<close>), and the
  transport \<open>request.concat\<close>: what it answers to the \<open>k\<close>-th request of the run, made
  for a URL.
\<close>

text \<open>
  The transport either never calls back, or calls \<open>(err, res, data)\<close>: \<open>err\<close> is any
  value, \<open>res\<close> is given by its \<open>statusCode\<close> and \<open>data\<close> by the text
  \<open>data.toString('utf8')\<close>; \<open>None\<close> stands for an argument that is \<open>undefined\<close>.
\<close>

datatype reply =
    NoCallback
  | Callback jsval "nat option" "jsstring option"

record env =
  NO_POST :: "jsstring option"
  JSON_parse :: "jsstring \<Rightarrow> json option"
  request_concat :: "nat \<Rightarrow> jsstring \<Rightarrow> reply"

text \<open>
  The effects of a run: the URLs handed to \<open>request.concat\<close>, and the lines written with
  \<open>console.log\<close>, both in order.
\<close>

record world =
  posted :: "jsstring list"
  console :: "jsstring list"

section \<open>Strings of the runtime\<close>

text \<open>\<open>a.join(sep)\<close> on strings.\<close>

fun join_strings :: "jsstring \<Rightarrow> jsstring list \<Rightarrow> jsstring" where
  "join_strings sep [] = []"
| "join_strings sep [s] = s"
| "join_strings sep (s # t # ss) = s @ sep @ join_strings sep (t # ss)"

text \<open>
  \<open>ToString\<close> of a JSON value; inside \<open>Array.prototype.join\<close> the elements \<open>null\<close>
  and \<open>undefined\<close> give the empty string.
\<close>

fun ToString :: "json \<Rightarrow> jsstring" where
  "ToString JNull = js ''null''"
| "ToString (JBool b) = (if b then js ''true'' else js ''false'')"
| "ToString (JNum x) = x"
| "ToString (JStr s) = s"
| "ToString (JArr xs) =
     join_strings (js '','') (map (\<lambda>x. if x = JNull then [] else ToString x) xs)"
| "ToString (JObj kvs) = js ''[object Object]''"

definition Array_join :: "jsstring \<Rightarrow> json list \<Rightarrow> jsstring" where
  "Array_join sep xs =
     join_strings sep (map (\<lambda>x. if x = JNull then [] else ToString x) xs)"

text \<open>\<open>x.join(sep)\<close> for any value \<open>x\<close>: only an array has the method; \<open>None\<close> is a
  thrown \<open>TypeError\<close>.\<close>

fun call_join :: "jsval \<Rightarrow> jsstring \<Rightarrow> jsstring option" where
  "call_join (Val (JArr xs)) sep = Some (Array_join sep xs)"
| "call_join _ sep = None"

text \<open>
  \<open>json.request\<close> and \<open>json.errors\<close> on a value returned by \<open>JSON.parse\<close>: reading a
  property of \<open>null\<close> throws (\<open>None\<close>); an object gives its own property, and every
  other case gives \<open>undefined\<close>, since no prototype defines either name.
\<close>

fun get_prop :: "json \<Rightarrow> jsstring \<Rightarrow> jsval option" where
  "get_prop JNull k = None"
| "get_prop (JObj kvs) k = (case map_of kvs k of None \<Rightarrow> Some Undefined | Some v \<Rightarrow> Some (Val v))"
| "get_prop _ k = Some Undefined"

text \<open>A status code in a template literal: its decimal digits.\<close>

fun nat_to_string :: "nat \<Rightarrow> jsstring" where
  "nat_to_string n =
     (if n < 10 then [of_nat (48 + n)]
      else nat_to_string (n div 10) @ [of_nat (48 + n mod 10)])"

declare nat_to_string.simps [simp del]

subsection \<open>URLSearchParams\<close>

text \<open>The code points of a string: a surrogate pair is one code point, a lone surrogate
  becomes U+FFFD.\<close>

fun code_points :: "nat list \<Rightarrow> nat list" where
  "code_points [] = []"
| "code_points [c] = (if 0xD800 \<le> c \<and> c \<le> 0xDFFF then [0xFFFD] else [c])"
| "code_points (c # d # cs) =
     (if 0xD800 \<le> c \<and> c \<le> 0xDBFF \<and> 0xDC00 \<le> d \<and> d \<le> 0xDFFF
      then (0x10000 + (c - 0xD800) * 0x400 + (d - 0xDC00)) # code_points cs
      else if 0xD800 \<le> c \<and> c \<le> 0xDFFF then 0xFFFD # code_points (d # cs)
      else c # code_points (d # cs))"

definition utf8 :: "nat \<Rightarrow> nat list" where
  "utf8 c =
     (if c < 0x80 then [c]
      else if c < 0x800 then [0xC0 + c div 0x40, 0x80 + c mod 0x40]
      else if c < 0x10000 then
        [0xE0 + c div 0x1000, 0x80 + (c div 0x40) mod 0x40, 0x80 + c mod 0x40]
      else
        [0xF0 + c div 0x40000, 0x80 + (c div 0x1000) mod 0x40,
         0x80 + (c div 0x40) mod 0x40, 0x80 + c mod 0x40])"

definition hex_digit :: "nat \<Rightarrow> 16 word" where
  "hex_digit n = (if n < 10 then of_nat (48 + n) else of_nat (55 + n))"

text \<open>The bytes that the form-urlencoded serializer leaves as they are: letters, digits
  and \<open>* - . _\<close>; a space becomes \<open>+\<close>, any other byte \<open>%XX\<close>.\<close>

definition urlencode_byte :: "nat \<Rightarrow> jsstring" where
  "urlencode_byte b =
     (if b = 0x20 then js ''+''
      else if (0x30 \<le> b \<and> b \<le> 0x39) \<or> (0x41 \<le> b \<and> b \<le> 0x5A) \<or> (0x61 \<le> b \<and> b \<le> 0x7A)
              \<or> b = 0x2A \<or> b = 0x2D \<or> b = 0x2E \<or> b = 0x5F
      then [of_nat b]
      else js ''%'' @ [hex_digit (b div 16), hex_digit (b mod 16)])"

definition urlencode :: "jsstring \<Rightarrow> jsstring" where
  "urlencode s = concat (map urlencode_byte (concat (map utf8 (code_points (map unat s)))))"

text \<open>\<open>new URLSearchParams(pairs).toString()\<close>; a value that is \<open>undefined\<close> is
  converted to the string \<open>undefined\<close>.\<close>

definition URLSearchParams_toString :: "(jsstring \<times> jsstring option) list \<Rightarrow> jsstring" where
  "URLSearchParams_toString pairs =
     join_strings (js ''&'')
       (map (\<lambda>(k, v).
              urlencode k @ js ''='' @ urlencode (case v of None \<Rightarrow> js ''undefined'' | Some s \<Rightarrow> s))
            pairs)"

section \<open>Bloblob\<close>

definition API_EP_MESSAGES :: jsstring where
  "API_EP_MESSAGES = js ''https://api.pushover.net/1/messages.json''"

text \<open>The object: \<open>appToken\<close> is set only when the constructor's argument is a string.\<close>

record bloblob =
  appToken :: "jsstring option"

fun Bloblob :: "jsval \<Rightarrow> bloblob" where
  "Bloblob (Val (JStr s)) = \<lparr>appToken = Some s\<rparr>"
| "Bloblob _ = \<lparr>appToken = None\<rparr>"

text \<open>
  The object \<open>params\<close> that \<open>generateUrl\<close> builds, as its keys and values in insertion
  order. The test before \<open>params.device = device\<close> reads \<open>title.length\<close>, which throws a
  \<open>TypeError\<close> when \<open>device\<close> is a string and \<open>title\<close> is \<open>undefined\<close>.
\<close>

definition generateUrl_params ::
  "bloblob \<Rightarrow> jsstring \<Rightarrow> jsstring \<Rightarrow> jsstring option \<Rightarrow> jsstring option
   \<Rightarrow> jsval + (jsstring \<times> jsstring option) list" where
  "generateUrl_params self userToken message title device =
     (let params = [(js ''token'', appToken self), (js ''user'', Some userToken),
                    (js ''message'', Some message)];
          params1 = (case title of
                       None \<Rightarrow> params
                     | Some t \<Rightarrow> if length t > 0 then params @ [(js ''title'', Some t)] else params)
      in case device of
           None \<Rightarrow> Inr params1
         | Some d \<Rightarrow>
             (case title of
                None \<Rightarrow> Inl TypeError
              | Some t \<Rightarrow> if length t > 0 then Inr (params1 @ [(js ''device'', Some d)])
                          else Inr params1))"

definition generateUrl ::
  "bloblob \<Rightarrow> jsstring \<Rightarrow> jsstring \<Rightarrow> jsstring option \<Rightarrow> jsstring option \<Rightarrow> jsval + jsstring" where
  "generateUrl self userToken message title device =
     (case generateUrl_params self userToken message title device of
        Inl e \<Rightarrow> Inl e
      | Inr params \<Rightarrow> Inr (API_EP_MESSAGES @ js ''?'' @ URLSearchParams_toString params))"

text \<open>
  The callback that \<open>postToApi\<close> passes to \<open>request.concat\<close>. An exception outside the
  \<open>try\<close> block escapes the callback and leaves the promise unsettled.
\<close>

definition malformed :: "jsstring \<Rightarrow> jsstring" where
  "malformed strData = js ''Response from pushover.net is malformed? '' @ strData"

definition on_response :: "env \<Rightarrow> jsstring \<Rightarrow> jsval \<Rightarrow> nat option \<Rightarrow> jsstring option \<Rightarrow> promise" where
  "on_response e target err res data =
     (case data of
        None \<Rightarrow> Uncaught TypeError
      | Some strData \<Rightarrow>
          if truthy err then Rejected err
          else (case res of
                  None \<Rightarrow> Uncaught TypeError
                | Some statusCode \<Rightarrow>
                    if statusCode \<noteq> 200 then
                      (case JSON_parse e strData of
                         None \<Rightarrow> Uncaught SyntaxError
                       | Some json \<Rightarrow>
                           (case get_prop json (js ''errors'') of
                              None \<Rightarrow> Uncaught TypeError
                            | Some errors \<Rightarrow>
                                (case call_join errors (js '' '') of
                                   None \<Rightarrow> Uncaught TypeError
                                 | Some joined \<Rightarrow>
                                     Rejected (targetError target
                                       (js ''HTTP '' @ nat_to_string statusCode @ js '': '' @ joined)))))
                    else
                      (case JSON_parse e strData of
                         None \<Rightarrow> Rejected (targetError target (malformed strData))
                       | Some json \<Rightarrow>
                           (case get_prop json (js ''request'') of
                              None \<Rightarrow> Rejected (targetError target (malformed strData))
                            | Some v \<Rightarrow> Fulfilled v))))"

text \<open>
  \<open>postToApi\<close>: the world after the executor has run, and what becomes of the returned
  promise. An exception thrown in the executor rejects the promise.
\<close>

definition postToApi ::
  "bloblob \<Rightarrow> env \<Rightarrow> world \<Rightarrow> jsstring \<Rightarrow> jsstring option \<Rightarrow> jsstring option \<Rightarrow> jsstring option
   \<Rightarrow> world \<times> promise" where
  "postToApi self e w target message title device =
     (case message of
        None \<Rightarrow> (w, Rejected TypeError)
      | Some m \<Rightarrow>
          if length m > 1024 then (w, Rejected (targetError target (js ''Message is too long'')))
          else (case generateUrl self target m title device of
                  Inl exn \<Rightarrow> (w, Rejected exn)
                | Inr url \<Rightarrow>
                    if truthy_str (NO_POST e) then
                      (w\<lparr>console := console w @ [js ''[.] Was going to POST to -> '' @ url]\<rparr>,
                       Fulfilled (Val (JStr (js ''01234567-8888-9999-0000-deadbeefcafe''))))
                    else
                      (w\<lparr>posted := posted w @ [url]\<rparr>,
                       case request_concat e (length (posted w)) url of
                         NoCallback \<Rightarrow> Pending
                       | Callback err res data \<Rightarrow> on_response e target err res data)))"

text \<open>\<open>lob\<close>: an \<open>async\<close> function, so a \<open>throw\<close> rejects the promise it returns.\<close>

definition lob ::
  "bloblob \<Rightarrow> env \<Rightarrow> world \<Rightarrow> jsstring option \<Rightarrow> jsstring option \<Rightarrow> jsstring option \<Rightarrow> jsstring option
   \<Rightarrow> world \<times> promise" where
  "lob self e w userToken message title device =
     (if \<not> truthy_str (appToken self) then (w, Rejected (Error (js ''No application token!'') None))
      else case userToken of
        None \<Rightarrow> (w, Rejected (Error (js ''No user token provided!'') None))
      | Some user \<Rightarrow>
          if user = [] then (w, Rejected (Error (js ''No user token provided!'') None))
          else if \<not> truthy_str message then (w, Rejected (Error (js ''No message!'') None))
          else postToApi self e w user message title device)"

text \<open>The loop of \<open>lobToAll\<close>: one call of \<open>postToApi\<close> per token, without a device.\<close>

fun push_all ::
  "bloblob \<Rightarrow> env \<Rightarrow> world \<Rightarrow> jsstring list \<Rightarrow> jsstring option \<Rightarrow> jsstring option
   \<Rightarrow> world \<times> promise list" where
  "push_all self e w [] message title = (w, [])"
| "push_all self e w (user # users) message title =
     (case postToApi self e w user message title None of
        (w1, p) \<Rightarrow> (case push_all self e w1 users message title of
                      (w2, pms) \<Rightarrow> (w2, p # pms)))"

text \<open>
  \<open>lobToAll\<close>: the world after the loop, the promises \<open>pms\<close>, and the state of
  \<open>allPromisesSettled(pms)\<close> after the handlers of the settled promises \<open>order\<close> have
  run.
\<close>

definition lobToAll ::
  "bloblob \<Rightarrow> env \<Rightarrow> world \<Rightarrow> jsstring list \<Rightarrow> jsstring option \<Rightarrow> jsstring option \<Rightarrow> nat list
   \<Rightarrow> world \<times> promise list \<times> settle_state" where
  "lobToAll self e w userTokens message title order =
     (case push_all self e w userTokens message title of
        (w', pms) \<Rightarrow> (w', pms, allPromisesSettled pms order))"

section \<open>Auxiliary definitions\<close>

text \<open>The array \<open>results\<close> once the handlers of the promises \<open>order\<close> have run.\<close>

definition slots :: "promise list \<Rightarrow> nat list \<Rightarrow> jsval list" where
  "slots ps order =
     map (\<lambda>j. if j \<in> set order then the (payload (ps ! j)) else Undefined) [0..<length ps]"

text \<open>A promise that settles with a value other than \<open>null\<close> and \<open>undefined\<close>.\<close>

definition settles_non_null :: "promise \<Rightarrow> bool" where
  "settles_non_null p = (case payload p of None \<Rightarrow> False | Some v \<Rightarrow> \<not> is_nullish v)"

subsection \<open>Example responses\<close>

text \<open>
  The values of \<open>JSON.parse\<close> on the response texts of the examples below; the last text
  is not JSON. No other text is parsed in an example.
\<close>

definition sample_parse :: "jsstring \<Rightarrow> json option" where
  \<open>sample_parse s =
     (if s = js ''{"request":"abc-123"}'' then Some (JObj [(js ''request'', JStr (js ''abc-123''))])
      else if s = js ''{"errors":["invalid token","user inactive"]}''
        then Some (JObj [(js ''errors'', JArr [JStr (js ''invalid token''), JStr (js ''user inactive'')])])
      else if s = js ''{"errors":["application token is invalid"]}''
        then Some (JObj [(js ''errors'', JArr [JStr (js ''application token is invalid'')])])
      else if s = js ''{"request":null}'' then Some (JObj [(js ''request'', JNull)])
      else if s = js ''{}'' then Some (JObj [])
      else if s = js ''null'' then Some JNull
      else if s = js ''<html>Bad Gateway</html>'' then None
      else None)\<close>

text \<open>An environment without \<open>PO_SIMULATE\<close>, with a given transport.\<close>

definition sample_env :: "(nat \<Rightarrow> jsstring \<Rightarrow> reply) \<Rightarrow> env" where
  "sample_env transport = \<lparr>NO_POST = None, JSON_parse = sample_parse, request_concat = transport\<rparr>"

definition w0 :: world where
  "w0 = \<lparr>posted = [], console = []\<rparr>"

text \<open>
  A transport that answers the \<open>k\<close>-th request with the \<open>k\<close>-th status and text of a
  list, without error, and never answers a later one.
\<close>

definition answers :: "(nat \<times> string) list \<Rightarrow> nat \<Rightarrow> jsstring \<Rightarrow> reply" where
  "answers rs k url =
     (if k < length rs then Callback (Val JNull) (Some (fst (rs ! k))) (Some (js (snd (rs ! k))))
      else NoCallback)"

text \<open>
  A transport that fails: \<open>cb(err)\<close>, as \<open>simple-get\<close> calls back on a connection
  error, and \<open>cb(err, undefined, data)\<close> with an empty buffer.
\<close>

definition refuses :: "nat \<Rightarrow> jsstring \<Rightarrow> reply" where
  "refuses k url = Callback (Error (js ''connect ECONNREFUSED'') None) None None"

definition refuses_with_data :: "nat \<Rightarrow> jsstring \<Rightarrow> reply" where
  "refuses_with_data k url = Callback (Error (js ''connect ECONNREFUSED'') None) None (Some [])"

text \<open>
  A transport that fails on the first request with \<open>cb(err)\<close> and answers the later
  ones from a list.
\<close>

definition refuses_first :: "(nat \<times> string) list \<Rightarrow> nat \<Rightarrow> jsstring \<Rightarrow> reply" where
  "refuses_first rs k url =
     (if k = 0 then Callback (Error (js ''connect ECONNREFUSED'') None) None None
      else answers rs (k - 1) url)"

text \<open>The object made by \<open>new Bloblob('T')\<close>.\<close>

definition bb :: bloblob where
  "bb = Bloblob (Val (JStr (js ''T'')))"

section \<open>Facts about strings\<close>

lemma unat_of_char: "unat (of_char c :: 16 word) = of_char c"
proof -
  have "(of_char c :: 16 word) = word_of_nat (of_char c)" by (rule of_nat_of_char [symmetric])
  then have "unat (of_char c :: 16 word) = of_char c mod 2 ^ 16"
    by (simp only: unat_of_nat) simp
  moreover have "(of_char c :: nat) < 2 ^ 16"
    by (rule less_trans [OF nat_of_char_less_256]) simp
  ultimately show ?thesis by simp
qed

lemma js_eq_iff [simp]: "js a = js b \<longleftrightarrow> a = b"
proof
  assume "js a = js b"
  then have "map unat (js a) = map unat (js b)" by simp
  then have "map (of_char :: char \<Rightarrow> nat) a = map of_char b"
    by (simp add: js_def unat_of_char comp_def)
  then show "a = b"
    by (simp add: inj_map_eq_map inj_on_def)
qed simp

lemma length_js [simp]: "length (js s) = length s"
  by (simp add: js_def)

lemma js_append: "js (a @ b) = js a @ js b"
  by (simp add: js_def)

lemma js_Nil [simp]: "js [] = []" "js s = [] \<longleftrightarrow> s = []" "[] = js s \<longleftrightarrow> s = []"
  by (auto simp: js_def)

text \<open>\<open>nat_to_string\<close> writes the decimal digits of a number, most significant first.\<close>

lemma digit_char: "d < 10 \<Longrightarrow> js ''0123456789'' ! d = of_nat (48 + d)"
proof -
  assume "d < 10"
  then have "d \<in> {0, 1, 2, 3, 4, 5, 6, 7, 8, 9}" by auto
  then show ?thesis by (auto simp: js_def)
qed

lemma nat_to_string_digits:
  "\<exists>ds. ds \<noteq> [] \<and> list_all (\<lambda>d. d < 10) ds \<and> (hd ds \<noteq> 0 \<or> ds = [0]) \<and>
        foldl (\<lambda>a d. 10 * a + d) 0 ds = n \<and>
        nat_to_string n = map (\<lambda>d. js ''0123456789'' ! d) ds"
proof (induction n rule: nat_to_string.induct)
  case (1 n)
  show ?case
  proof (cases "n < 10")
    case True
    then have "nat_to_string n = map (\<lambda>d. js ''0123456789'' ! d) [n]"
      by (simp add: nat_to_string.simps [of n] digit_char)
    with True show ?thesis
      by (intro exI [of _ "[n]"]) auto
  next
    case False
    with "1.IH" obtain ds where ds: "ds \<noteq> []" "list_all (\<lambda>d. d < 10) ds" "hd ds \<noteq> 0 \<or> ds = [0]"
      "foldl (\<lambda>a d. 10 * a + d) 0 ds = n div 10"
      "nat_to_string (n div 10) = map (\<lambda>d. js ''0123456789'' ! d) ds"
      by blast
    from False have "n div 10 \<noteq> 0" by simp
    with ds(3,4) have hd: "hd ds \<noteq> 0" by auto
    have "nat_to_string n = map (\<lambda>d. js ''0123456789'' ! d) (ds @ [n mod 10])"
      using False ds(5) by (simp add: nat_to_string.simps [of n] digit_char)
    moreover have "foldl (\<lambda>a d. 10 * a + d) 0 (ds @ [n mod 10]) = n"
      using ds(4) by simp
    moreover have "hd (ds @ [n mod 10]) \<noteq> 0" using ds(1) hd by simp
    ultimately show ?thesis
      using ds(1,2) by (intro exI [of _ "ds @ [n mod 10]"]) auto
  qed
qed

lemma nat_to_string_3: 
  assumes "100 \<le> n" "n \<le> 999"
  shows "nat_to_string n = [js ''0123456789'' ! (n div 100), js ''0123456789'' ! (n div 10 mod 10),
                           js ''0123456789'' ! (n mod 10)]"
proof -
  have a: "\<not> n < 10" "\<not> n div 10 < 10" "n div 10 div 10 < 10" using assms by auto
  have b: "n div 10 div 10 = n div 100" by (simp add: div_mult2_eq)
  show ?thesis
    using a
    by (simp add: nat_to_string.simps [of n] nat_to_string.simps [of "n div 10"]
        nat_to_string.simps [of "n div 100"] digit_char b)
qed

text \<open>\<open>join_strings\<close> puts the separator before every element but the first.\<close>

lemma join_strings_concat:
  "join_strings sep (s # ss) = s @ concat (map (\<lambda>t. sep @ t) ss)"
  by (induction ss arbitrary: s) simp_all

section \<open>Facts about the handlers of allPromisesSettled\<close>

lemma scan_iff: "scan xs \<longleftrightarrow> (\<forall>x\<in>set xs. \<not> is_nullish x)"
  by (induction xs) auto

lemma slots_snoc:
  assumes "i < length ps"
  shows "slots ps (order @ [i]) = (slots ps order)[i := the (payload (ps ! i))]"
  using assms by (intro nth_equalityI) (auto simp: slots_def nth_list_update)

lemma length_slots: "length (slots ps order) = length ps"
  by (simp add: slots_def)

lemma results_run:
  "schedule ps order \<Longrightarrow> results (allPromisesSettled ps order) = slots ps order"
proof (induction order rule: rev_induct)
  case Nil
  show ?case by (intro nth_equalityI) (simp_all add: allPromisesSettled_def slots_def)
next
  case (snoc i order)
  from snoc.prems have sch: "schedule ps order" and i: "i < length ps"
    and p: "payload (ps ! i) \<noteq> None"
    by (auto simp: schedule_def)
  from p obtain v where v: "payload (ps ! i) = Some v" by auto
  have "results (allPromisesSettled ps order) = slots ps order" using snoc.IH sch by simp
  then show ?case using i v
    by (simp add: allPromisesSettled_def deliver_def fillAndCheck_def Let_def ok_def
        array_set_def length_slots slots_snoc)
qed

lemma scan_slots:
  "scan (slots ps order) \<longleftrightarrow>
     (\<forall>j<length ps. j \<in> set order \<and> \<not> is_nullish (the (payload (ps ! j))))"
  by (simp add: scan_iff all_set_conv_all_nth length_slots) (auto simp: slots_def)

lemma run_snoc:
  "allPromisesSettled ps (order @ [i]) = deliver ps (allPromisesSettled ps order) i"
  by (simp add: allPromisesSettled_def)

lemma schedule_snoc:
  "schedule ps (order @ [i]) \<longleftrightarrow>
     schedule ps order \<and> i \<notin> set order \<and> i < length ps \<and> payload (ps ! i) \<noteq> None"
  by (auto simp: schedule_def)

lemma run_flags:
  "schedule ps order \<Longrightarrow>
     resolved (allPromisesSettled ps order) = (order \<noteq> [] \<and> scan (slots ps order)) \<and>
     ok_calls (allPromisesSettled ps order) = (if order \<noteq> [] \<and> scan (slots ps order) then 1 else 0)"
proof (induction order rule: rev_induct)
  case Nil
  show ?case by (simp add: allPromisesSettled_def)
next
  case (snoc i order)
  from snoc.prems have sch: "schedule ps order" and new: "i \<notin> set order"
    and i: "i < length ps" and p: "payload (ps ! i) \<noteq> None"
    by (simp_all add: schedule_snoc)
  from p obtain v where v: "payload (ps ! i) = Some v" by auto
  have before: "\<not> scan (slots ps order)"
    using new i by (auto simp: scan_slots)
  have flags: "\<not> resolved (allPromisesSettled ps order)" "ok_calls (allPromisesSettled ps order) = 0"
    using snoc.IH [OF sch] before by simp_all
  have res: "results (allPromisesSettled ps order) = slots ps order"
    by (rule results_run [OF sch])
  show ?case using i v flags res
    by (simp add: run_snoc deliver_def fillAndCheck_def Let_def ok_def array_set_def
        length_slots slots_snoc)
qed

lemma schedule_take: "schedule ps order \<Longrightarrow> schedule ps (take k order)"
  by (auto simp: schedule_def list_all_iff dest: in_set_takeD)

lemma all_settled_iff: "all_settled ps order \<longleftrightarrow> (\<forall>j<length ps. j \<in> set order)"
  by (auto simp: all_settled_def list_all_iff)

lemma resolved_imp:
  assumes "schedule ps order" "resolved (allPromisesSettled ps order)"
  shows "all_settled ps order" "\<forall>j<length ps. \<not> is_nullish (the (payload (ps ! j)))"
  using run_flags [OF assms(1)] assms(2) by (auto simp: scan_slots all_settled_iff)

lemma not_resolved_prefix:
  assumes "schedule ps order" "k < length order"
  shows "\<not> resolved (allPromisesSettled ps (take k order))"
proof
  assume r: "resolved (allPromisesSettled ps (take k order))"
  have "order ! k < length ps" using assms by (auto simp: schedule_def list_all_length)
  moreover have "order ! k \<notin> set (take k order)"
    using assms by (auto simp: schedule_def in_set_conv_nth nth_eq_iff_index_eq)
  ultimately show False
    using resolved_imp(1) [OF schedule_take [OF assms(1)] r] by (auto simp: all_settled_iff)
qed

lemma resolved_complete:
  assumes "ps \<noteq> []" "schedule ps order" "all_settled ps order"
    and "\<forall>j<length ps. \<not> is_nullish (the (payload (ps ! j)))"
  shows "resolved (allPromisesSettled ps order)" "ok_calls (allPromisesSettled ps order) = 1"
    "results (allPromisesSettled ps order) = map (\<lambda>p. the (payload p)) ps"
proof -
  have ne: "order \<noteq> []" using assms(1,3) by (cases ps) (auto simp: all_settled_iff)
  have sc: "scan (slots ps order)" using assms(3,4) by (auto simp: scan_slots all_settled_iff)
  show "resolved (allPromisesSettled ps order)" "ok_calls (allPromisesSettled ps order) = 1"
    using run_flags [OF assms(2)] ne sc by simp_all
  show "results (allPromisesSettled ps order) = map (\<lambda>p. the (payload p)) ps"
    using assms(3) by (simp add: results_run [OF assms(2)]) (intro nth_equalityI; simp add: slots_def all_settled_iff)
qed

lemma run_empty: "allPromisesSettled [] order = \<lparr>results = [], resolved = False, ok_calls = 0\<rparr>"
  by (induction order rule: rev_induct) (simp_all add: allPromisesSettled_def deliver_def)

lemmas run_eval = allPromisesSettled_def deliver_def fillAndCheck_def ok_def array_set_def
  aggregate_def schedule_def all_settled_def settles_non_null_def Let_def

section \<open>Facts about the submissions\<close>

lemma lob_delegates:
  "truthy_str (appToken self) \<Longrightarrow> user \<noteq> [] \<Longrightarrow> m \<noteq> [] \<Longrightarrow>
   lob self e w (Some user) (Some m) title device = postToApi self e w user (Some m) title device"
  by (simp add: lob_def)

lemma postToApi_request:
  assumes "length m \<le> 1024" and "generateUrl self target m title device = Inr url"
    and "\<not> truthy_str (NO_POST e)"
    and "request_concat e (length (posted w)) url = Callback err res data"
  shows "postToApi self e w target (Some m) title device =
           (w\<lparr>posted := posted w @ [url]\<rparr>, on_response e target err res data)"
  using assms by (simp add: postToApi_def)

lemma postToApi_too_long:
  "1024 < length m \<Longrightarrow>
   postToApi self e w target (Some m) title device =
     (w, Rejected (Error (js ''Message is too long'') (Some target)))"
  by (simp add: postToApi_def targetError_def)

lemma push_all_too_long:
  "1024 < length m \<Longrightarrow>
   push_all self e w userTokens (Some m) title =
     (w, map (\<lambda>u. Rejected (Error (js ''Message is too long'') (Some u))) userTokens)"
  by (induction userTokens) (simp_all add: postToApi_too_long)

lemma Array_join_strings: "Array_join sep (map JStr ss) = join_strings sep ss"
  by (simp add: Array_join_def comp_def)

lemma push_all_length:
  "push_all self e w userTokens message title = (w', pms) \<Longrightarrow> length pms = length userTokens"
  by (induction userTokens arbitrary: w w' pms) (auto split: prod.splits)

lemma push_all_nth:
  "push_all self e w userTokens message title = (w', pms) \<Longrightarrow> i < length userTokens \<Longrightarrow>
   pms ! i = snd (postToApi self e (fst (push_all self e w (take i userTokens) message title))
                    (userTokens ! i) message title None)"
proof (induction userTokens arbitrary: w w' pms i)
  case Nil
  then show ?case by simp
next
  case (Cons user users)
  obtain w1 p where p: "postToApi self e w user message title None = (w1, p)"
    by (cases "postToApi self e w user message title None")
  obtain w2 ps where ps: "push_all self e w1 users message title = (w2, ps)"
    by (cases "push_all self e w1 users message title")
  from Cons.prems(1) p ps have pms: "pms = p # ps" by simp
  show ?case
  proof (cases i)
    case 0
    then show ?thesis using p pms by simp
  next
    case (Suc k)
    then have k: "k < length users" using Cons.prems(2) by simp
    show ?thesis
      using Cons.IH [OF ps k] p pms Suc by (simp split: prod.splits)
  qed
qed

lemma generateUrl_throws: "generateUrl self user m title device = Inl x \<Longrightarrow> x = TypeError"
  by (auto simp: generateUrl_def generateUrl_params_def Let_def split: option.splits if_splits sum.splits)

lemma truthy_not_nullish: "truthy v \<Longrightarrow> \<not> is_nullish v"
  by (cases v rule: is_nullish.cases) simp_all

lemma on_response_Rejected:
  "on_response e target err res data = Rejected r \<Longrightarrow> \<not> is_nullish r"
  by (auto simp: on_response_def targetError_def truthy_not_nullish
      split: option.splits if_splits)

lemma on_response_Fulfilled:
  "on_response e target err res data = Fulfilled v \<Longrightarrow>
   \<exists>strData json. res = Some 200 \<and> data = Some strData \<and> JSON_parse e strData = Some json \<and>
      get_prop json (js ''request'') = Some v"
  by (auto simp: on_response_def split: option.splits if_splits)

subsection \<open>Evaluation of the examples\<close>

lemmas url_eval = generateUrl_def generateUrl_params_def API_EP_MESSAGES_def
  URLSearchParams_toString_def urlencode_def urlencode_byte_def utf8_def hex_digit_def js_def
  bb_def

lemma url_u1_hi:
  "generateUrl bb (js ''u1'') (js ''hi'') None None =
     Inr (js ''https://api.pushover.net/1/messages.json?token=T&user=u1&message=hi'')"
  by (simp add: url_eval)

lemma url_u2_hi:
  "generateUrl bb (js ''u2'') (js ''hi'') None None =
     Inr (js ''https://api.pushover.net/1/messages.json?token=T&user=u2&message=hi'')"
  by (simp add: url_eval)

lemma bb_token [simp]: "appToken bb = Some (js ''T'')"
  by (simp add: bb_def)

lemmas lob_eval = lob_def postToApi_def on_response_def targetError_def malformed_def
  sample_env_def sample_parse_def answers_def refuses_def refuses_with_data_def w0_def
  Array_join_def

lemmas lobToAll_eval = lobToAll_def lob_eval url_u1_hi url_u2_hi run_eval

lemma status_500: "nat_to_string 500 = js ''500''"
  by (simp add: nat_to_string.simps [of 500] nat_to_string.simps [of 50]
      nat_to_string.simps [of 5] js_def)

lemmas hang_eval = lobToAll_eval refuses_first_def status_500

section \<open>Validation in lob\<close>

text \<open>
  Claim C9. \<open>lob\<close> rejects with \<open>No application token!\<close> when the object has no
  token or an empty one; otherwise with \<open>No user token provided!\<close> when the user token is
  missing or empty; otherwise with \<open>No message!\<close> when the message is missing or empty. In
  each case the world is unchanged: nothing was posted. On valid input \<open>lob\<close> raises none of
  these and is the call of \<open>postToApi\<close>.
\<close>

theorem lob_validation:
  "(\<not> truthy_str (appToken self) \<longrightarrow>
      lob self e w userToken message title device =
        (w, Rejected (Error (js ''No application token!'') None))) \<and>
   (truthy_str (appToken self) \<and> \<not> truthy_str userToken \<longrightarrow>
      lob self e w userToken message title device =
        (w, Rejected (Error (js ''No user token provided!'') None))) \<and>
   (truthy_str (appToken self) \<and> truthy_str userToken \<and> \<not> truthy_str message \<longrightarrow>
      lob self e w userToken message title device =
        (w, Rejected (Error (js ''No message!'') None))) \<and>
   (truthy_str (appToken self) \<and> truthy_str userToken \<and> truthy_str message \<longrightarrow>
      lob self e w userToken message title device =
        postToApi self e w (the userToken) message title device)"
  by (cases userToken) (auto simp: lob_def)

text \<open>
  Instances of C9: no token, an empty user token, no message, and a valid call.
\<close>

theorem lob_validation_witness:
  \<open>lob (Bloblob Undefined) (sample_env (answers [])) w0 (Some (js ''u1'')) (Some (js ''hi'')) None None =
     (w0, Rejected (Error (js ''No application token!'') None)) \<and>
   lob bb (sample_env (answers [])) w0 (Some []) (Some (js ''hi'')) None None =
     (w0, Rejected (Error (js ''No user token provided!'') None)) \<and>
   lob bb (sample_env (answers [])) w0 (Some (js ''u1'')) None None None =
     (w0, Rejected (Error (js ''No message!'') None)) \<and>
   lob bb (sample_env (answers [(200, ''{"request":"abc-123"}'')])) w0
       (Some (js ''u1'')) (Some (js ''hi'')) None None =
     postToApi bb (sample_env (answers [(200, ''{"request":"abc-123"}'')])) w0
       (js ''u1'') (Some (js ''hi'')) None None \<and>
   lob bb (sample_env (answers [(200, ''{"request":"abc-123"}'')])) w0
       (Some (js ''u1'')) (Some (js ''hi'')) None None =
     (\<lparr>posted = [js ''https://api.pushover.net/1/messages.json?token=T&user=u1&message=hi''],
       console = []\<rparr>,
      Fulfilled (Val (JStr (js ''abc-123''))))\<close>
  using lob_validation [of "Bloblob Undefined" "sample_env (answers [])" w0 "Some (js ''u1'')"
      "Some (js ''hi'')" None None]
    lob_validation [of bb "sample_env (answers [])" w0 "Some []" "Some (js ''hi'')" None None]
    lob_validation [of bb "sample_env (answers [])" w0 "Some (js ''u1'')" None None None]
    lob_validation [of bb \<open>sample_env (answers [(200, ''{"request":"abc-123"}'')])\<close> w0
      "Some (js ''u1'')" "Some (js ''hi'')" None None]
  by (simp add: lob_eval url_u1_hi)

section \<open>Messages longer than 1024 code units\<close>

text \<open>
  Claim C6. For a message longer than 1024, \<open>postToApi\<close>, and so every recipient of
  \<open>lobToAll\<close>, is rejected with \<open>Message is too long\<close> tagged with the recipient,
  and nothing is posted. \<open>lob\<close> posts nothing either, and under its preconditions, an
  application token and a user token that are present and not empty, it is rejected with
  that error, tagged with the user token.
\<close>

theorem message_too_long:
  assumes "1024 < length m"
  shows "postToApi self e w target (Some m) title device =
           (w, Rejected (Error (js ''Message is too long'') (Some target))) \<and>
         lobToAll self e w userTokens (Some m) title order =
           (w, map (\<lambda>u. Rejected (Error (js ''Message is too long'') (Some u))) userTokens,
            allPromisesSettled
              (map (\<lambda>u. Rejected (Error (js ''Message is too long'') (Some u))) userTokens) order) \<and>
         fst (lob self e w userToken (Some m) title device) = w \<and>
         (truthy_str (appToken self) \<and> truthy_str userToken \<longrightarrow>
            lob self e w userToken (Some m) title device =
              (w, Rejected (Error (js ''Message is too long'') userToken)))"
proof -
  have ne: "m \<noteq> []" using assms by auto
  show ?thesis
    using assms ne
    by (cases userToken)
      (auto simp: lob_def lobToAll_def postToApi_too_long push_all_too_long)
qed

text \<open>
  An instance of C6 with a message of 1025 code units.
\<close>

theorem message_too_long_witness:
  "1024 < length (replicate 1025 (97 :: 16 word)) \<and>
   postToApi bb (sample_env (answers [])) w0 (js ''u1'') (Some (replicate 1025 97)) None None =
     (w0, Rejected (Error (js ''Message is too long'') (Some (js ''u1'')))) \<and>
   fst (lobToAll bb (sample_env (answers [])) w0 [js ''u1'', js ''u2''] (Some (replicate 1025 97))
          None [0, 1]) = w0 \<and>
   fst (snd (lobToAll bb (sample_env (answers [])) w0 [js ''u1'', js ''u2'']
          (Some (replicate 1025 97)) None [0, 1])) =
     [Rejected (Error (js ''Message is too long'') (Some (js ''u1''))),
      Rejected (Error (js ''Message is too long'') (Some (js ''u2'')))] \<and>
   lob bb (sample_env (answers [])) w0 (Some (js ''u1'')) (Some (replicate 1025 97)) None None =
     (w0, Rejected (Error (js ''Message is too long'') (Some (js ''u1''))))"
proof -
  have h: "1024 < length (replicate 1025 (97 :: 16 word))" by simp
  show ?thesis
    using h message_too_long [OF h, of bb "sample_env (answers [])" w0 "js ''u1''" None None
        "[js ''u1'', js ''u2'']" "[0, 1]" "Some (js ''u1'')"]
    by simp
qed


section \<open>The request URL\<close>

text \<open>
  Claim C4. The claim: the URL has \<open>device\<close> exactly when a non-empty device was given,
  whatever the title. The code tests \<open>title.length\<close> before \<open>params.device = device\<close>:
  with a device and no title \<open>generateUrl\<close> throws a \<open>TypeError\<close> (and \<open>lob\<close> rejects
  with it, posting nothing); with a device and an empty title the URL has no \<open>device\<close>; with
  a title and an empty device the URL has an empty \<open>device\<close>. With both non-empty the URL
  has both.
\<close>

theorem generateUrl_device_depends_on_title:
  "generateUrl bb (js ''u1'') (js ''hi'') None (Some (js ''iphone'')) = Inl TypeError \<and>
   generateUrl bb (js ''u1'') (js ''hi'') (Some []) (Some (js ''iphone'')) =
     Inr (js ''https://api.pushover.net/1/messages.json?token=T&user=u1&message=hi'') \<and>
   generateUrl bb (js ''u1'') (js ''hi'') (Some (js ''Yo'')) (Some []) =
     Inr (js ''https://api.pushover.net/1/messages.json?token=T&user=u1&message=hi&title=Yo&device='') \<and>
   generateUrl bb (js ''u1'') (js ''hi'') (Some (js ''Yo'')) (Some (js ''iphone'')) =
     Inr (js ''https://api.pushover.net/1/messages.json?token=T&user=u1&message=hi&title=Yo&device=iphone'') \<and>
   lob bb (sample_env (answers [])) w0 (Some (js ''u1'')) (Some (js ''hi'')) None (Some (js ''iphone'')) =
     (w0, Rejected TypeError)"
  by (simp add: url_eval lob_def postToApi_def)

section \<open>The response\<close>

text \<open>
  Claim C5. The claim: a transport error is propagated as the failure of the submission,
  tagged with the recipient. The code reads \<open>data.toString('utf8')\<close> before it looks at
  \<open>err\<close>: when the transport calls back with the error alone, a \<open>TypeError\<close> escapes the
  callback and the promise is never settled. When \<open>data\<close> is there, the promise is rejected
  with the transport's error as it is, without a \<open>target\<close>.
\<close>

theorem transport_error_not_propagated:
  "lob bb (sample_env refuses) w0 (Some (js ''u1'')) (Some (js ''hi'')) None None =
     (\<lparr>posted = [js ''https://api.pushover.net/1/messages.json?token=T&user=u1&message=hi''],
       console = []\<rparr>,
      Uncaught TypeError) \<and>
   lob bb (sample_env refuses_with_data) w0 (Some (js ''u1'')) (Some (js ''hi'')) None None =
     (\<lparr>posted = [js ''https://api.pushover.net/1/messages.json?token=T&user=u1&message=hi''],
       console = []\<rparr>,
      Rejected (Error (js ''connect ECONNREFUSED'') None))"
  by (simp add: lob_eval url_u1_hi)

text \<open>
  Claim C7. When a request was made and answered without error by a status other than 200
  and a text that parses to an object whose \<open>errors\<close> is an array of strings, the
  submission is rejected with an error tagged with the recipient whose message is
  \<open>HTTP\<close>, a space, the status, a colon, a space and the errors joined by single spaces.
  The status is written with its decimal digits \<open>ds\<close>, without a leading zero; for a
  status of three digits these are the hundreds, the tens and the units. The joined errors
  are the first error followed by a space and the next error, for each further error.
\<close>

theorem non_200_error_message:
  assumes "length m \<le> 1024" and "generateUrl self target m title device = Inr url"
    and "\<not> truthy_str (NO_POST e)"
    and "request_concat e (length (posted w)) url = Callback err (Some statusCode) (Some strData)"
    and "\<not> truthy err" and "statusCode \<noteq> 200"
    and "JSON_parse e strData = Some (JObj kvs)"
    and "map_of kvs (js ''errors'') = Some (JArr (map JStr errs))"
  shows "(\<exists>ds. ds \<noteq> [] \<and> list_all (\<lambda>d. d < 10) ds \<and> (hd ds \<noteq> 0 \<or> ds = [0]) \<and>
            foldl (\<lambda>a d. 10 * a + d) 0 ds = statusCode \<and>
            postToApi self e w target (Some m) title device =
              (w\<lparr>posted := posted w @ [url]\<rparr>,
               Rejected (Error (js ''HTTP '' @ map (\<lambda>d. js ''0123456789'' ! d) ds @ js '': '' @
                                (case errs of [] \<Rightarrow> []
                                 | s # ss \<Rightarrow> s @ concat (map (\<lambda>t. js '' '' @ t) ss)))
                               (Some target)))) \<and>
         (100 \<le> statusCode \<and> statusCode \<le> 999 \<longrightarrow>
            postToApi self e w target (Some m) title device =
              (w\<lparr>posted := posted w @ [url]\<rparr>,
               Rejected (Error (js ''HTTP '' @
                                [js ''0123456789'' ! (statusCode div 100),
                                 js ''0123456789'' ! (statusCode div 10 mod 10),
                                 js ''0123456789'' ! (statusCode mod 10)] @ js '': '' @
                                (case errs of [] \<Rightarrow> []
                                 | s # ss \<Rightarrow> s @ concat (map (\<lambda>t. js '' '' @ t) ss)))
                               (Some target))))"
proof -
  have j: "join_strings (js '' '') errs =
      (case errs of [] \<Rightarrow> [] | s # ss \<Rightarrow> s @ concat (map (\<lambda>t. js '' '' @ t) ss))"
    by (cases errs) (simp_all add: join_strings_concat)
  have eq: "postToApi self e w target (Some m) title device =
           (w\<lparr>posted := posted w @ [url]\<rparr>,
            Rejected (Error (js ''HTTP '' @ nat_to_string statusCode @ js '': '' @
                             join_strings (js '' '') errs) (Some target)))"
    using assms(5-8)
    by (simp add: postToApi_request [OF assms(1-4)] on_response_def targetError_def
        Array_join_strings)
  obtain ds where ds: "ds \<noteq> []" "list_all (\<lambda>d. d < 10) ds" "hd ds \<noteq> 0 \<or> ds = [0]"
      "foldl (\<lambda>a d. 10 * a + d) 0 ds = statusCode"
      "nat_to_string statusCode = map (\<lambda>d. js ''0123456789'' ! d) ds"
    using nat_to_string_digits [of statusCode] by blast
  have A: "\<exists>ds. ds \<noteq> [] \<and> list_all (\<lambda>d. d < 10) ds \<and> (hd ds \<noteq> 0 \<or> ds = [0]) \<and>
            foldl (\<lambda>a d. 10 * a + d) 0 ds = statusCode \<and>
            postToApi self e w target (Some m) title device =
              (w\<lparr>posted := posted w @ [url]\<rparr>,
               Rejected (Error (js ''HTTP '' @ map (\<lambda>d. js ''0123456789'' ! d) ds @ js '': '' @
                                (case errs of [] \<Rightarrow> []
                                 | s # ss \<Rightarrow> s @ concat (map (\<lambda>t. js '' '' @ t) ss)))
                               (Some target)))"
    using ds eq j by (intro exI [of _ ds]) simp
  have B: "postToApi self e w target (Some m) title device =
              (w\<lparr>posted := posted w @ [url]\<rparr>,
               Rejected (Error (js ''HTTP '' @
                                [js ''0123456789'' ! (statusCode div 100),
                                 js ''0123456789'' ! (statusCode div 10 mod 10),
                                 js ''0123456789'' ! (statusCode mod 10)] @ js '': '' @
                                (case errs of [] \<Rightarrow> []
                                 | s # ss \<Rightarrow> s @ concat (map (\<lambda>t. js '' '' @ t) ss)))
                               (Some target)))"
    if "100 \<le> statusCode \<and> statusCode \<le> 999"
    using that eq j by (simp add: nat_to_string_3)
  from A B show ?thesis by blast
qed


text \<open>
  Instances of C7: status 500 with the errors \<open>invalid token\<close> and
  \<open>user inactive\<close>, status 400 with one error, and status 429.
\<close>

theorem non_200_error_message_witness:
  \<open>postToApi bb (sample_env (answers [(500, ''{"errors":["invalid token","user inactive"]}'')])) w0
      (js ''u1'') (Some (js ''hi'')) None None =
     (\<lparr>posted = [js ''https://api.pushover.net/1/messages.json?token=T&user=u1&message=hi''],
       console = []\<rparr>,
      Rejected (Error (js ''HTTP 500: invalid token user inactive'') (Some (js ''u1'')))) \<and>
   postToApi bb (sample_env (answers [(400, ''{"errors":["application token is invalid"]}'')])) w0
      (js ''u1'') (Some (js ''hi'')) None None =
     (\<lparr>posted = [js ''https://api.pushover.net/1/messages.json?token=T&user=u1&message=hi''],
       console = []\<rparr>,
      Rejected (Error (js ''HTTP 400: application token is invalid'') (Some (js ''u1'')))) \<and>
   postToApi bb (sample_env (answers [(429, ''{"errors":["invalid token","user inactive"]}'')])) w0
      (js ''u2'') (Some (js ''hi'')) None None =
     (\<lparr>posted = [js ''https://api.pushover.net/1/messages.json?token=T&user=u2&message=hi''],
       console = []\<rparr>,
      Rejected (Error (js ''HTTP 429: invalid token user inactive'') (Some (js ''u2''))))\<close>
proof -
  let ?two = \<open>''{"errors":["invalid token","user inactive"]}''\<close>
  let ?one = \<open>''{"errors":["application token is invalid"]}''\<close>
  let ?url1 = "js ''https://api.pushover.net/1/messages.json?token=T&user=u1&message=hi''"
  let ?url2 = "js ''https://api.pushover.net/1/messages.json?token=T&user=u2&message=hi''"
  have h1: "length (js ''hi'') \<le> 1024" by simp
  have h3: "\<not> truthy_str (NO_POST (sample_env t))" for t by (simp add: sample_env_def)
  have h4: "request_concat (sample_env (answers [(c, b)])) (length (posted w0)) u =
      Callback (Val JNull) (Some c) (Some (js b))" for c b u
    by (simp add: sample_env_def answers_def w0_def)
  have h5: "\<not> truthy (Val JNull)" by simp
  have p2: "JSON_parse (sample_env t) (js ?two) =
      Some (JObj [(js ''errors'', JArr [JStr (js ''invalid token''), JStr (js ''user inactive'')])])"
    for t by (simp add: sample_env_def sample_parse_def)
  have p1: "JSON_parse (sample_env t) (js ?one) =
      Some (JObj [(js ''errors'', JArr [JStr (js ''application token is invalid'')])])"
    for t by (simp add: sample_env_def sample_parse_def)
  have m2: "map_of [(js ''errors'', JArr [JStr (js ''invalid token''), JStr (js ''user inactive'')])]
      (js ''errors'') = Some (JArr (map JStr [js ''invalid token'', js ''user inactive'']))"
    by simp
  have m1: "map_of [(js ''errors'', JArr [JStr (js ''application token is invalid'')])]
      (js ''errors'') = Some (JArr (map JStr [js ''application token is invalid'']))"
    by simp
  have a: "(500 :: nat) \<noteq> 200" "(400 :: nat) \<noteq> 200" "(429 :: nat) \<noteq> 200" by simp_all
  note t500 = non_200_error_message [OF h1 url_u1_hi h3 h4 h5 a(1) p2 m2, THEN conjunct2]
  note t400 = non_200_error_message [OF h1 url_u1_hi h3 h4 h5 a(2) p1 m1, THEN conjunct2]
  note t429 = non_200_error_message [OF h1 url_u2_hi h3 h4 h5 a(3) p2 m2, THEN conjunct2]
  show ?thesis
    using t500 t400 t429 by (simp add: w0_def js_def)
qed


text \<open>
  Claim C8, amended. When a valid call of \<open>lob\<close> is answered without error by status
  200: if the text parses to an object, \<open>lob\<close> is fulfilled with the value of its
  \<open>request\<close> property, \<open>undefined\<close> when there is none; if it parses to any other value
  except \<open>null\<close>, with \<open>undefined\<close>; if it does not parse, or parses to \<open>null\<close>,
  \<open>lob\<close> is rejected with the malformed-response error, tagged with the recipient and
  ending with the text received.
\<close>

theorem lob_status_200:
  assumes "truthy_str (appToken self)" and "user \<noteq> []" and "m \<noteq> []" and "length m \<le> 1024"
    and "generateUrl self user m title device = Inr url"
    and "\<not> truthy_str (NO_POST e)"
    and "request_concat e (length (posted w)) url = Callback err (Some 200) (Some strData)"
    and "\<not> truthy err"
  shows "(\<forall>kvs. JSON_parse e strData = Some (JObj kvs) \<longrightarrow>
            lob self e w (Some user) (Some m) title device =
              (w\<lparr>posted := posted w @ [url]\<rparr>,
               Fulfilled (case map_of kvs (js ''request'') of
                            None \<Rightarrow> Undefined | Some v \<Rightarrow> Val v))) \<and>
         (\<forall>json. JSON_parse e strData = Some json \<and> json \<noteq> JNull \<and> (\<forall>kvs. json \<noteq> JObj kvs) \<longrightarrow>
            lob self e w (Some user) (Some m) title device =
              (w\<lparr>posted := posted w @ [url]\<rparr>, Fulfilled Undefined)) \<and>
         (JSON_parse e strData = None \<or> JSON_parse e strData = Some JNull \<longrightarrow>
            lob self e w (Some user) (Some m) title device =
              (w\<lparr>posted := posted w @ [url]\<rparr>,
               Rejected (Error (js ''Response from pushover.net is malformed? '' @ strData)
                               (Some user))))"
proof -
  have eq: "lob self e w (Some user) (Some m) title device =
              (w\<lparr>posted := posted w @ [url]\<rparr>, on_response e user err (Some 200) (Some strData))"
    by (simp add: lob_delegates [OF assms(1-3)] postToApi_request [OF assms(4-7)])
  have other: "get_prop json k = Some Undefined" if "json \<noteq> JNull" "\<forall>kvs. json \<noteq> JObj kvs"
    for json k using that by (cases json) simp_all
  show ?thesis
    using assms(8)
    by (auto simp: eq on_response_def targetError_def malformed_def other split: option.splits)
qed

text \<open>
  Instances of C8: the response \<open>{"request":"abc-123"}\<close> and a response that is not
  JSON.
\<close>

theorem lob_status_200_witness:
  \<open>lob bb (sample_env (answers [(200, ''{"request":"abc-123"}'')])) w0
      (Some (js ''u1'')) (Some (js ''hi'')) None None =
     (\<lparr>posted = [js ''https://api.pushover.net/1/messages.json?token=T&user=u1&message=hi''],
       console = []\<rparr>,
      Fulfilled (Val (JStr (js ''abc-123'')))) \<and>
   lob bb (sample_env (answers [(200, ''<html>Bad Gateway</html>'')])) w0
      (Some (js ''u1'')) (Some (js ''hi'')) None None =
     (\<lparr>posted = [js ''https://api.pushover.net/1/messages.json?token=T&user=u1&message=hi''],
       console = []\<rparr>,
      Rejected (Error (js ''Response from pushover.net is malformed? <html>Bad Gateway</html>'')
                      (Some (js ''u1''))))\<close>
proof -
  let ?e1 = \<open>sample_env (answers [(200, ''{"request":"abc-123"}'')])\<close>
  let ?e2 = \<open>sample_env (answers [(200, ''<html>Bad Gateway</html>'')])\<close>
  let ?url = "js ''https://api.pushover.net/1/messages.json?token=T&user=u1&message=hi''"
  have h1: "truthy_str (appToken bb)" by simp
  have h2: "js ''u1'' \<noteq> []" and h3: "js ''hi'' \<noteq> []" and h4: "length (js ''hi'') \<le> 1024"
    by simp_all
  have n1: "\<not> truthy_str (NO_POST ?e1)" and n2: "\<not> truthy_str (NO_POST ?e2)"
    by (simp_all add: sample_env_def)
  have r1: \<open>request_concat ?e1 (length (posted w0)) ?url =
      Callback (Val JNull) (Some 200) (Some (js ''{"request":"abc-123"}''))\<close>
    and r2: \<open>request_concat ?e2 (length (posted w0)) ?url =
      Callback (Val JNull) (Some 200) (Some (js ''<html>Bad Gateway</html>''))\<close>
    by (simp_all add: sample_env_def answers_def w0_def)
  have t: "\<not> truthy (Val JNull)" by simp
  have p1: \<open>JSON_parse ?e1 (js ''{"request":"abc-123"}'') =
      Some (JObj [(js ''request'', JStr (js ''abc-123''))])\<close>
    and p2: \<open>JSON_parse ?e2 (js ''<html>Bad Gateway</html>'') = None\<close>
    by (simp_all add: sample_env_def sample_parse_def)
  show ?thesis
    using lob_status_200 [OF h1 h2 h3 h4 url_u1_hi n1 r1 t] p1
      lob_status_200 [OF h1 h2 h3 h4 url_u1_hi n2 r2 t] p2
    by (simp add: w0_def js_append [symmetric])
qed

text \<open>
  Claim C8 as stated fails: the text \<open>null\<close> parses as JSON, reading \<open>request\<close>
  from \<open>null\<close> throws inside the \<open>try\<close> block, and \<open>lob\<close> is rejected.
\<close>

theorem lob_status_200_counterexample:
  \<open>JSON_parse (sample_env (answers [(200, ''null'')])) (js ''null'') = Some JNull \<and>
   lob bb (sample_env (answers [(200, ''null'')])) w0
      (Some (js ''u1'')) (Some (js ''hi'')) None None =
     (\<lparr>posted = [js ''https://api.pushover.net/1/messages.json?token=T&user=u1&message=hi''],
       console = []\<rparr>,
      Rejected (Error (js ''Response from pushover.net is malformed? null'') (Some (js ''u1''))))\<close>
  by (simp add: lob_eval url_u1_hi js_append [symmetric])

section \<open>The settle-aggregator\<close>

text \<open>
  Claim C2. The claim: for the empty list of recipients, \<open>lobToAll\<close> resolves at once with
  an empty list of outcomes. The code: \<open>allPromisesSettled\<close> calls \<open>ok\<close> only from a
  handler, and with no promise there is no handler, so for the empty list the returned promise
  is never resolved, whatever happens afterwards; no request is made and \<open>pms\<close> is empty.
\<close>

theorem lobToAll_empty_never_resolves:
  "lobToAll self e w [] message title order =
     (w, [], \<lparr>results = [], resolved = False, ok_calls = 0\<rparr>) \<and>
   aggregate (snd (snd (lobToAll self e w [] message title order))) = None"
  by (simp add: lobToAll_def run_empty aggregate_def)

text \<open>
  Claim C3. The claim: for a non-empty list, the result resolves exactly once, after every
  operation has settled. The code: the scan \<open>results[j] == null\<close> takes a slot that was
  filled with \<open>null\<close> or \<open>undefined\<close> for an empty one, so when a promise settles
  with such a value, fulfilled or rejected, \<open>ok\<close> is never called: every promise has
  settled, every handler has run, in either order, and the returned promise stays pending.
  \<open>lobToAll\<close> builds such a list when a response with status 200 has no \<open>request\<close>.
\<close>

theorem allPromisesSettled_null_slot_hangs:
  \<open>schedule [Fulfilled (Val (JStr (js ''id''))), Fulfilled Undefined] [0, 1] \<and>
   all_settled [Fulfilled (Val (JStr (js ''id''))), Fulfilled Undefined] [0, 1] \<and>
   allPromisesSettled [Fulfilled (Val (JStr (js ''id''))), Fulfilled Undefined] [0, 1] =
     \<lparr>results = [Val (JStr (js ''id'')), Undefined], resolved = False, ok_calls = 0\<rparr> \<and>
   allPromisesSettled [Fulfilled (Val (JStr (js ''id''))), Fulfilled Undefined] [1, 0] =
     \<lparr>results = [Val (JStr (js ''id'')), Undefined], resolved = False, ok_calls = 0\<rparr> \<and>
   allPromisesSettled [Rejected (Val JNull), Fulfilled (Val (JStr (js ''id'')))] [0, 1] =
     \<lparr>results = [Val JNull, Val (JStr (js ''id''))], resolved = False, ok_calls = 0\<rparr> \<and>
   lobToAll bb (sample_env (answers [(200, ''{"request":"abc-123"}''), (200, ''{}'')])) w0
      [js ''u1'', js ''u2''] (Some (js ''hi'')) None [0, 1] =
     (\<lparr>posted = [js ''https://api.pushover.net/1/messages.json?token=T&user=u1&message=hi'',
                 js ''https://api.pushover.net/1/messages.json?token=T&user=u2&message=hi''],
       console = []\<rparr>,
      [Fulfilled (Val (JStr (js ''abc-123''))), Fulfilled Undefined],
      \<lparr>results = [Val (JStr (js ''abc-123'')), Undefined], resolved = False, ok_calls = 0\<rparr>)\<close>
  by (simp add: hang_eval upt_rec)

text \<open>
  What the handlers do guarantee, for every non-empty list of promises and every order in
  which the handlers can run: the returned promise is resolved only when every promise has
  settled, it is not resolved after any proper part of the run, and \<open>ok\<close> is called at
  most once. When all promises have settled, each with a value other than \<open>null\<close> and
  \<open>undefined\<close>, \<open>ok\<close> has been called exactly once, with the settled values in the
  order of the list.
\<close>

lemma allPromisesSettled_resolves_once:
  assumes "promiseList \<noteq> []" and "schedule promiseList order"
  shows "(resolved (allPromisesSettled promiseList order) \<longrightarrow> all_settled promiseList order) \<and>
         (\<forall>k<length order. \<not> resolved (allPromisesSettled promiseList (take k order))) \<and>
         ok_calls (allPromisesSettled promiseList order) \<le> 1 \<and>
         (all_settled promiseList order \<and> list_all settles_non_null promiseList \<longrightarrow>
            ok_calls (allPromisesSettled promiseList order) = 1 \<and>
            aggregate (allPromisesSettled promiseList order)
              = Some (map (\<lambda>p. the (payload p)) promiseList)) \<and>
         (\<forall>st. resolved (ok st) \<and> aggregate (ok (ok st)) = aggregate (ok st))"
proof (intro conjI allI impI)
  show "all_settled promiseList order" if "resolved (allPromisesSettled promiseList order)"
    using resolved_imp(1) [OF assms(2) that] .
  show "\<not> resolved (allPromisesSettled promiseList (take k order))" if "k < length order" for k
    using not_resolved_prefix [OF assms(2) that] .
  show "ok_calls (allPromisesSettled promiseList order) \<le> 1"
    using run_flags [OF assms(2)] by simp
  show "resolved (ok st)" for st by (simp add: ok_def)
  show "aggregate (ok (ok st)) = aggregate (ok st)" for st by (simp add: ok_def aggregate_def)
next
  assume h: "all_settled promiseList order \<and> list_all settles_non_null promiseList"
  then have nn: "\<forall>j<length promiseList. \<not> is_nullish (the (payload (promiseList ! j)))"
    by (auto simp: list_all_length settles_non_null_def split: option.splits)
  note rc = resolved_complete [OF assms(1,2) conjunct1 [OF h] nn]
  show "ok_calls (allPromisesSettled promiseList order) = 1" by (rule rc(2))
  show "aggregate (allPromisesSettled promiseList order)
              = Some (map (\<lambda>p. the (payload p)) promiseList)"
    using rc(1,3) by (simp add: aggregate_def)
qed

text \<open>
  An example: the second promise settles first. After its handler the result is still
  pending; after both handlers it is resolved once, in the order of the list.
\<close>

lemma allPromisesSettled_resolves_once_example:
  "[Rejected TypeError, Fulfilled (Val (JStr (js ''id'')))] \<noteq> [] \<and>
   schedule [Rejected TypeError, Fulfilled (Val (JStr (js ''id'')))] [1, 0] \<and>
   all_settled [Rejected TypeError, Fulfilled (Val (JStr (js ''id'')))] [1, 0] \<and>
   list_all settles_non_null [Rejected TypeError, Fulfilled (Val (JStr (js ''id'')))] \<and>
   \<not> resolved (allPromisesSettled [Rejected TypeError, Fulfilled (Val (JStr (js ''id'')))] (take 1 [1, 0])) \<and>
   ok_calls (allPromisesSettled [Rejected TypeError, Fulfilled (Val (JStr (js ''id'')))] [1, 0]) = 1 \<and>
   aggregate (allPromisesSettled [Rejected TypeError, Fulfilled (Val (JStr (js ''id'')))] [1, 0])
     = Some [TypeError, Val (JStr (js ''id''))]"
proof -
  let ?ps = "[Rejected TypeError, Fulfilled (Val (JStr (js ''id'')))]"
  have h1: "?ps \<noteq> []" by simp
  have h2: "schedule ?ps [1, 0]" by (simp add: schedule_def)
  have h3: "all_settled ?ps [1, 0]" by (simp add: all_settled_def upt_rec)
  have h4: "list_all settles_non_null ?ps" by (simp add: settles_non_null_def)
  from allPromisesSettled_resolves_once [OF h1 h2] h3 h4
  have a: "(\<forall>k<length [1::nat, 0]. \<not> resolved (allPromisesSettled ?ps (take k [1, 0])))"
    and b: "ok_calls (allPromisesSettled ?ps [1, 0]) = 1"
    and c: "aggregate (allPromisesSettled ?ps [1, 0]) = Some (map (\<lambda>p. the (payload p)) ?ps)"
    by blast+
  have "\<not> resolved (allPromisesSettled ?ps (take 1 [1, 0]))"
    using a [rule_format, of 1] by simp
  then show ?thesis using b c h1 h2 h3 h4 by simp
qed


text \<open>
  Claim C10, amended. When a promise of the list settles with \<open>null\<close> or
  \<open>undefined\<close>, the returned promise is never resolved, in any order of the handlers.
  Among the submissions of \<open>postToApi\<close>, a rejection never carries \<open>null\<close> or
  \<open>undefined\<close>; a fulfilment can, but only when a response with status 200 parses to a
  value whose \<open>request\<close> is \<open>null\<close> or missing.
\<close>

theorem null_outcome_never_resolves:
  "(i < length promiseList \<and> payload (promiseList ! i) = Some v \<and> is_nullish v \<and>
    schedule promiseList order \<longrightarrow>
      aggregate (allPromisesSettled promiseList order) = None) \<and>
   (postToApi self e w target message title device = (w', Rejected r) \<longrightarrow> \<not> is_nullish r) \<and>
   (postToApi self e w target message title device = (w', Fulfilled u) \<and> is_nullish u \<longrightarrow>
      (\<exists>url err strData json.
          request_concat e (length (posted w)) url = Callback err (Some 200) (Some strData) \<and>
          JSON_parse e strData = Some json \<and> get_prop json (js ''request'') = Some u))"
proof (intro conjI impI)
  assume h: "i < length promiseList \<and> payload (promiseList ! i) = Some v \<and> is_nullish v \<and>
    schedule promiseList order"
  show "aggregate (allPromisesSettled promiseList order) = None"
  proof (rule ccontr)
    assume "aggregate (allPromisesSettled promiseList order) \<noteq> None"
    then have r: "resolved (allPromisesSettled promiseList order)"
      by (simp add: aggregate_def split: if_splits)
    from resolved_imp(2) [OF _ r] h show False by auto
  qed
next
  assume "postToApi self e w target message title device = (w', Rejected r)"
  then show "\<not> is_nullish r"
    by (auto simp: postToApi_def targetError_def
        split: option.splits if_splits sum.splits reply.splits
        dest: generateUrl_throws on_response_Rejected)
next
  assume "postToApi self e w target message title device = (w', Fulfilled u) \<and> is_nullish u"
  then show "\<exists>url err strData json.
          request_concat e (length (posted w)) url = Callback err (Some 200) (Some strData) \<and>
          JSON_parse e strData = Some json \<and> get_prop json (js ''request'') = Some u"
    by (auto simp: postToApi_def split: option.splits if_splits sum.splits reply.splits
        dest!: on_response_Fulfilled)
qed

text \<open>
  Instances of C10: a list with a promise fulfilled with \<open>null\<close>, a rejected
  submission, and a submission fulfilled with \<open>undefined\<close>.
\<close>

theorem null_outcome_never_resolves_witness:
  \<open>aggregate (allPromisesSettled [Fulfilled (Val JNull), Rejected TypeError] [1, 0]) = None \<and>
   postToApi bb (sample_env (answers [])) w0 (js ''u1'') None None None = (w0, Rejected TypeError) \<and>
   \<not> is_nullish TypeError \<and>
   postToApi bb (sample_env (answers [(200, ''{}'')])) w0 (js ''u1'') (Some (js ''hi'')) None None =
     (\<lparr>posted = [js ''https://api.pushover.net/1/messages.json?token=T&user=u1&message=hi''],
       console = []\<rparr>, Fulfilled Undefined) \<and>
   (\<exists>url err strData json.
      request_concat (sample_env (answers [(200, ''{}'')])) (length (posted w0)) url =
        Callback err (Some 200) (Some strData) \<and>
      JSON_parse (sample_env (answers [(200, ''{}'')])) strData = Some json \<and>
      get_prop json (js ''request'') = Some Undefined)\<close>
proof -
  let ?ps = "[Fulfilled (Val JNull), Rejected TypeError]"
  let ?e = \<open>sample_env (answers [(200, ''{}'')])\<close>
  let ?w = "\<lparr>posted = [js ''https://api.pushover.net/1/messages.json?token=T&user=u1&message=hi''],
       console = []\<rparr>"
  have a: "0 < length ?ps \<and> payload (?ps ! 0) = Some (Val JNull) \<and> is_nullish (Val JNull) \<and>
      schedule ?ps [1, 0]"
    by (simp add: schedule_def)
  have b: "postToApi bb (sample_env (answers [])) w0 (js ''u1'') None None None =
      (w0, Rejected TypeError)"
    by (simp add: postToApi_def)
  have c: "postToApi bb ?e w0 (js ''u1'') (Some (js ''hi'')) None None = (?w, Fulfilled Undefined)"
    by (simp add: lob_eval url_u1_hi)
  have d: "is_nullish Undefined" by simp
  note t1 = null_outcome_never_resolves [of 0 ?ps "Val JNull" "[1, 0]" bb "sample_env (answers [])"
      w0 "js ''u1''" None None None w0 TypeError Undefined]
  note t2 = null_outcome_never_resolves [of 0 ?ps "Val JNull" "[1, 0]" bb ?e
      w0 "js ''u1''" "Some (js ''hi'')" None None ?w TypeError Undefined]
  from t1 a b have r1: "aggregate (allPromisesSettled ?ps [1, 0]) = None" "\<not> is_nullish TypeError"
    by blast+
  from t2 c d have r2: "\<exists>url err strData json.
      request_concat ?e (length (posted w0)) url = Callback err (Some 200) (Some strData) \<and>
      JSON_parse ?e strData = Some json \<and> get_prop json (js ''request'') = Some Undefined"
    by blast
  show ?thesis using r1 r2 b c by blast
qed

text \<open>
  Claim C10 as stated fails in its last sentence: a submission answered by
  \<open>{"request":null}\<close> is fulfilled with \<open>null\<close>, and \<open>lobToAll\<close> for this one
  recipient is never resolved.
\<close>

theorem null_outcome_never_resolves_counterexample:
  \<open>postToApi bb (sample_env (answers [(200, ''{"request":null}'')])) w0 (js ''u1'')
      (Some (js ''hi'')) None None =
     (\<lparr>posted = [js ''https://api.pushover.net/1/messages.json?token=T&user=u1&message=hi''],
       console = []\<rparr>, Fulfilled (Val JNull)) \<and>
   is_nullish (Val JNull) \<and>
   aggregate (snd (snd (lobToAll bb (sample_env (answers [(200, ''{"request":null}'')])) w0
      [js ''u1''] (Some (js ''hi'')) None [0]))) = None\<close>
  by (simp add: lobToAll_eval)

section \<open>lobToAll\<close>

text \<open>
  Claim C1. The claim: when the submission for one recipient fails and the others succeed,
  \<open>lobToAll\<close> resolves with the failure in that recipient's slot and the successes in
  the others. The code, for two recipients of which the second succeeds: when the transport
  fails for the first with \<open>cb(err)\<close>, or answers it with an error page that is not
  JSON, an exception escapes the callback, the first promise never settles and
  \<open>lobToAll\<close> is never resolved, although the second recipient's handler has run. When
  the first is rejected with status 500 and the second is fulfilled by a response without
  \<open>request\<close>, both have settled and \<open>lobToAll\<close> is never resolved, in either order.
\<close>

theorem lobToAll_failure_hangs:
  \<open>lobToAll bb (sample_env (refuses_first [(200, ''{"request":"abc-123"}'')])) w0
      [js ''u1'', js ''u2''] (Some (js ''hi'')) None [1] =
     (\<lparr>posted = [js ''https://api.pushover.net/1/messages.json?token=T&user=u1&message=hi'',
                 js ''https://api.pushover.net/1/messages.json?token=T&user=u2&message=hi''],
       console = []\<rparr>,
      [Uncaught TypeError, Fulfilled (Val (JStr (js ''abc-123'')))],
      \<lparr>results = [Undefined, Val (JStr (js ''abc-123''))], resolved = False, ok_calls = 0\<rparr>) \<and>
   lobToAll bb (sample_env (answers [(502, ''<html>Bad Gateway</html>''),
                                     (200, ''{"request":"abc-123"}'')])) w0
      [js ''u1'', js ''u2''] (Some (js ''hi'')) None [1] =
     (\<lparr>posted = [js ''https://api.pushover.net/1/messages.json?token=T&user=u1&message=hi'',
                 js ''https://api.pushover.net/1/messages.json?token=T&user=u2&message=hi''],
       console = []\<rparr>,
      [Uncaught SyntaxError, Fulfilled (Val (JStr (js ''abc-123'')))],
      \<lparr>results = [Undefined, Val (JStr (js ''abc-123''))], resolved = False, ok_calls = 0\<rparr>) \<and>
   lobToAll bb (sample_env (answers [(500, ''{"errors":["invalid token","user inactive"]}''),
                                     (200, ''{}'')])) w0
      [js ''u1'', js ''u2''] (Some (js ''hi'')) None [0, 1] =
     (\<lparr>posted = [js ''https://api.pushover.net/1/messages.json?token=T&user=u1&message=hi'',
                 js ''https://api.pushover.net/1/messages.json?token=T&user=u2&message=hi''],
       console = []\<rparr>,
      [Rejected (Error (js ''HTTP 500: invalid token user inactive'') (Some (js ''u1''))),
       Fulfilled Undefined],
      \<lparr>results = [Error (js ''HTTP 500: invalid token user inactive'') (Some (js ''u1'')),
                  Undefined],
       resolved = False, ok_calls = 0\<rparr>) \<and>
   aggregate (snd (snd (lobToAll bb
      (sample_env (answers [(500, ''{"errors":["invalid token","user inactive"]}''), (200, ''{}'')]))
      w0 [js ''u1'', js ''u2''] (Some (js ''hi'')) None [1, 0]))) = None\<close>
  by (simp add: hang_eval js_append [symmetric])

text \<open>
  What \<open>lobToAll\<close> does guarantee: for a non-empty list of \<open>N\<close> recipients whose
  submissions all settle with a value other than \<open>null\<close> and \<open>undefined\<close>, once all
  have settled, in any order, \<open>lobToAll\<close> is resolved, once, with \<open>N\<close> outcomes: slot
  \<open>i\<close> holds the value or the error of the submission for recipient \<open>i\<close>, and that
  submission is the call of \<open>postToApi\<close> for recipient \<open>i\<close> alone.
\<close>

lemma lobToAll_outcomes:
  assumes "lobToAll self e w userTokens message title order = (w', pms, st)"
    and "userTokens \<noteq> []"
    and "list_all settles_non_null pms"
    and "schedule pms order" and "all_settled pms order"
  shows "length pms = length userTokens \<and>
         (\<forall>i<length userTokens.
            pms ! i = snd (postToApi self e
                             (fst (push_all self e w (take i userTokens) message title))
                             (userTokens ! i) message title None)) \<and>
         aggregate st = Some (map (\<lambda>p. the (payload p)) pms) \<and>
         ok_calls st = 1"
proof -
  from assms(1) have pa: "push_all self e w userTokens message title = (w', pms)"
    and st: "st = allPromisesSettled pms order"
    by (auto simp: lobToAll_def split: prod.splits)
  have len: "length pms = length userTokens" by (rule push_all_length [OF pa])
  then have ne: "pms \<noteq> []" using assms(2) by auto
  have nn: "\<forall>j<length pms. \<not> is_nullish (the (payload (pms ! j)))"
    using assms(3) by (auto simp: list_all_length settles_non_null_def split: option.splits)
  note rc = resolved_complete [OF ne assms(4,5) nn]
  show ?thesis
    using len rc push_all_nth [OF pa] by (simp add: st aggregate_def)
qed

text \<open>
  An example: the first recipient fails with status 500, the second succeeds and settles
  first.
\<close>

lemma lobToAll_outcomes_example:
  \<open>[js ''u1'', js ''u2''] \<noteq> [] \<and>
   lobToAll bb (sample_env (answers [(500, ''{"errors":["invalid token","user inactive"]}''),
                                     (200, ''{"request":"abc-123"}'')]))
      w0 [js ''u1'', js ''u2''] (Some (js ''hi'')) None [1, 0] =
     (\<lparr>posted = [js ''https://api.pushover.net/1/messages.json?token=T&user=u1&message=hi'',
                 js ''https://api.pushover.net/1/messages.json?token=T&user=u2&message=hi''],
       console = []\<rparr>,
      [Rejected (Error (js ''HTTP 500: invalid token user inactive'') (Some (js ''u1''))),
       Fulfilled (Val (JStr (js ''abc-123'')))],
      allPromisesSettled
        [Rejected (Error (js ''HTTP 500: invalid token user inactive'') (Some (js ''u1''))),
         Fulfilled (Val (JStr (js ''abc-123'')))] [1, 0]) \<and>
   aggregate (allPromisesSettled
        [Rejected (Error (js ''HTTP 500: invalid token user inactive'') (Some (js ''u1''))),
         Fulfilled (Val (JStr (js ''abc-123'')))] [1, 0]) =
     Some [Error (js ''HTTP 500: invalid token user inactive'') (Some (js ''u1'')),
           Val (JStr (js ''abc-123''))]\<close>
proof -
  let ?e = \<open>sample_env (answers [(500, ''{"errors":["invalid token","user inactive"]}''),
                                     (200, ''{"request":"abc-123"}'')])\<close>
  let ?pms = "[Rejected (Error (js ''HTTP 500: invalid token user inactive'') (Some (js ''u1''))),
       Fulfilled (Val (JStr (js ''abc-123'')))]"
  let ?w = "\<lparr>posted = [js ''https://api.pushover.net/1/messages.json?token=T&user=u1&message=hi'',
                 js ''https://api.pushover.net/1/messages.json?token=T&user=u2&message=hi''],
       console = []\<rparr>"
  have h1: "lobToAll bb ?e w0 [js ''u1'', js ''u2''] (Some (js ''hi'')) None [1, 0] =
      (?w, ?pms, allPromisesSettled ?pms [1, 0])"
    by (simp add: lobToAll_def lob_eval url_u1_hi url_u2_hi status_500 js_append [symmetric])
  have h2: "[js ''u1'', js ''u2''] \<noteq> []" by simp
  have h3: "list_all settles_non_null ?pms" by (simp add: settles_non_null_def)
  have h4: "schedule ?pms [1, 0]" by (simp add: schedule_def)
  have h5: "all_settled ?pms [1, 0]" by (simp add: all_settled_def upt_rec)
  show ?thesis
    using lobToAll_outcomes [OF h1 h2 h3 h4 h5] h1 by simp
qed


end
